theory Spec2Isabelle
  imports Main "HOL-Library.Product_Lexorder"
begin

section \<open>EarningsRadar: the scraping and aggregation pipeline\<close>

text \<open>
  A shallow embedding of \<^verbatim>\<open>earnings_scraper.py\<close>, \<^verbatim>\<open>news_scraper.py\<close> and
  \<^verbatim>\<open>clean_ticker\<close> of \<^verbatim>\<open>utils.py\<close>.

  The program talks to the outside world: it reads the clock (\<^verbatim>\<open>datetime.now()\<close>),
  fetches pages (\<^verbatim>\<open>session.get\<close>) and downloads articles (\<^verbatim>\<open>newspaper.Article\<close>).
  The outside world is an oracle record \<open>env\<close>; the program's own state is a record
  \<open>world\<close> of three counters, one per kind of effect, threaded through every function
  that has effects. The \<open>k\<close>-th effect of a kind observes what the oracle holds at \<open>k\<close>,
  so two reads of the clock, or two fetches of one URL, may differ as they do in a run.

  A timestamp (a naive \<^verbatim>\<open>datetime\<close>) is an \<open>int\<close>: microseconds since
  0001-01-01 00:00:00, the least \<^verbatim>\<open>datetime\<close>. A calendar date (\<^verbatim>\<open>date\<close>) is an
  \<open>int\<close>: whole days since 0001-01-01. Python exceptions are values of \<open>pyexn\<close>.

  Library functions the code calls are parameters of \<open>env\<close> too
  (\<^verbatim>\<open>strptime\<close>, \<^verbatim>\<open>strftime\<close>, \<^verbatim>\<open>.year\<close>, \<^verbatim>\<open>.replace\<close>): a theorem holds for whatever
  they compute. Every timestamp of the model is naive: a text with a numeric UTC offset,
  which \<^verbatim>\<open>%z\<close> would turn into an aware \<^verbatim>\<open>datetime\<close>, is not told apart. Strings are
  lists of bytes, and case and white space are those of ASCII. The pandas calls are
  modelled on lists of rows: \<^verbatim>\<open>drop_duplicates\<close> keeps the first row of each key,
  \<^verbatim>\<open>sort_values\<close> sorts by one column.
\<close>

subsection \<open>Exceptions, time and the library\<close>

datatype pyexn = ValueError | AttributeError | OverflowError | IndexError | RequestException | OtherError

definition DAY :: int where
  "DAY = 86400000000"

definition HOUR :: int where
  "HOUR = 3600000000"

definition MINUTE :: int where
  "MINUTE = 60000000"

definition DATETIME_MAX :: int where
  \<comment> \<open>9999-12-31 23:59:59.999999\<close>
  "DATETIME_MAX = 3652059 * DAY - 1"

definition timedelta :: "int \<Rightarrow> pyexn + int" where
  \<comment> \<open>\<^verbatim>\<open>timedelta(...)\<close> of the given number of microseconds; the day count is bounded\<close>
  "timedelta us =
     (if - 999999999 \<le> us div DAY \<and> us div DAY \<le> 999999999 then Inr us
      else Inl OverflowError)"

definition datetime_add :: "int \<Rightarrow> int \<Rightarrow> pyexn + int" where
  \<comment> \<open>\<^verbatim>\<open>datetime + timedelta\<close>: the result must be a \<^verbatim>\<open>datetime\<close>\<close>
  "datetime_add t d =
     (if 0 \<le> t + d \<and> t + d \<le> DATETIME_MAX then Inr (t + d) else Inl OverflowError)"

definition to_date :: "int \<Rightarrow> int" where
  \<comment> \<open>\<^verbatim>\<open>datetime.date()\<close>\<close>
  "to_date t = t div DAY"

definition days_between :: "int \<Rightarrow> int \<Rightarrow> int" where
  \<comment> \<open>\<^verbatim>\<open>(a - b).days\<close> of two timestamps: \<^verbatim>\<open>timedelta\<close> keeps the floor\<close>
  "days_between a b = (a - b) div DAY"

record anchor =
  a_text :: string
    \<comment> \<open>\<^verbatim>\<open>get_text(strip=True)\<close> of an \<^verbatim>\<open>a\<close> element\<close>
  a_title :: "string option"
    \<comment> \<open>\<^verbatim>\<open>get('title')\<close>\<close>
  href :: "string option"
    \<comment> \<open>\<^verbatim>\<open>get('href')\<close>\<close>

record cell =
  cell_text :: string
    \<comment> \<open>\<^verbatim>\<open>get_text(strip=True)\<close> of a \<^verbatim>\<open>td\<close>\<close>
  colspan :: "string option"
    \<comment> \<open>\<^verbatim>\<open>get('colspan')\<close>\<close>
  cell_link :: "anchor option"
    \<comment> \<open>\<^verbatim>\<open>find('a')\<close>\<close>

record news_item =
  item_link :: "anchor option"
    \<comment> \<open>the \<^verbatim>\<open>a\<close> element the adapter looks for in an item\<close>
  heading :: "string option"
    \<comment> \<open>the text of \<^verbatim>\<open>item.find('h3') or item.find('h2')\<close>\<close>
  timestamp :: "string option"
    \<comment> \<open>the text of the date \<^verbatim>\<open>span\<close>\<close>

record rss_item =
  rss_title :: "string option"
  rss_link :: "string option"
  pubDate :: "string option"

text \<open>
  A fetched document, as the adapters read it through BeautifulSoup: a table is the list
  of its rows (\<^verbatim>\<open>find_all('tr')\<close>), a row the list of its cells
  (\<^verbatim>\<open>find_all('td')\<close>).
\<close>

record page =
  calendar_table :: "cell list list option"
    \<comment> \<open>the table \<^verbatim>\<open>soup.find('table', {...})\<close> selects, after the adapter's second try\<close>
  tables :: "cell list list list"
    \<comment> \<open>\<^verbatim>\<open>soup.find_all('table')\<close>\<close>
  news_items :: "news_item list"
    \<comment> \<open>\<^verbatim>\<open>soup.find_all('div', {'class': ...})\<close>\<close>
  rss_items :: "rss_item list"
    \<comment> \<open>\<^verbatim>\<open>soup.find_all('item')\<close>\<close>

record content =
  article_text :: string
  article_summary :: string
  authors :: "string list"
  publish_date :: "int option"

record env =
  clock :: "nat \<Rightarrow> int"
    \<comment> \<open>the value of the \<open>k\<close>-th call of \<^verbatim>\<open>datetime.now()\<close>\<close>
  strptime :: "string \<Rightarrow> string \<Rightarrow> pyexn + int"
    \<comment> \<open>\<^verbatim>\<open>datetime.strptime(text, fmt)\<close>; \<open>Inl ValueError\<close> when the text does not match\<close>
  strftime :: "int \<Rightarrow> string \<Rightarrow> string"
    \<comment> \<open>\<^verbatim>\<open>.strftime(fmt)\<close> of a timestamp\<close>
  year_of :: "int \<Rightarrow> int"
    \<comment> \<open>\<^verbatim>\<open>.year\<close> of a timestamp\<close>
  replace_year :: "int \<Rightarrow> int \<Rightarrow> pyexn + int"
    \<comment> \<open>\<^verbatim>\<open>.replace(year=y)\<close>; \<open>Inl ValueError\<close> for 29 February in a common year\<close>
  fetch :: "nat \<Rightarrow> string \<Rightarrow> pyexn + page"
    \<comment> \<open>the \<open>k\<close>-th \<^verbatim>\<open>session.get(url)\<close>: an exception, or the document parsed\<close>
  newspaper :: "nat \<Rightarrow> string \<Rightarrow> pyexn + content"
    \<comment> \<open>the \<open>k\<close>-th \<^verbatim>\<open>Article(url)\<close> downloaded, parsed and summarised\<close>

record world =
  clock_reads :: nat
  requests :: nat
  downloads :: nat

definition now :: "env \<Rightarrow> world \<Rightarrow> int \<times> world" where
  \<comment> \<open>\<^verbatim>\<open>datetime.now()\<close>\<close>
  "now E w = (clock E (clock_reads w), w\<lparr>clock_reads := Suc (clock_reads w)\<rparr>)"

definition session_get :: "env \<Rightarrow> string \<Rightarrow> world \<Rightarrow> (pyexn + page) \<times> world" where
  \<comment> \<open>\<^verbatim>\<open>BeautifulSoup(self.session.get(url, timeout=...).content, ...)\<close>\<close>
  "session_get E u w = (fetch E (requests w) u, w\<lparr>requests := Suc (requests w)\<rparr>)"

subsection \<open>Strings\<close>

definition is_space :: "char \<Rightarrow> bool" where
  \<comment> \<open>the ASCII characters \<^verbatim>\<open>str.strip()\<close> removes\<close>
  "is_space c = (of_char c \<in> {9, 10, 11, 12, 13, 28, 29, 30, 31, 32 :: nat})"

definition strip :: "string \<Rightarrow> string" where
  "strip s = rev (dropWhile is_space (rev (dropWhile is_space s)))"

definition is_digit :: "char \<Rightarrow> bool" where
  "is_digit c = (48 \<le> (of_char c :: nat) \<and> (of_char c :: nat) \<le> 57)"

definition lower_char :: "char \<Rightarrow> char" where
  "lower_char c =
     (if 65 \<le> (of_char c :: nat) \<and> (of_char c :: nat) \<le> 90
      then char_of ((of_char c :: nat) + 32) else c)"


definition lower :: "string \<Rightarrow> string" where
  "lower s = map lower_char s"


fun is_prefix :: "string \<Rightarrow> string \<Rightarrow> bool" where
  "is_prefix [] s = True"
| "is_prefix (p # ps) [] = False"
| "is_prefix (p # ps) (c # cs) = (p = c \<and> is_prefix ps cs)"

fun contains :: "string \<Rightarrow> string \<Rightarrow> bool" where
  \<comment> \<open>\<^verbatim>\<open>p in s\<close>\<close>
  "contains p [] = (p = [])"
| "contains p (c # cs) = (is_prefix p (c # cs) \<or> contains p cs)"


definition first_digits :: "string \<Rightarrow> string option" where
  \<comment> \<open>\<^verbatim>\<open>re.search(r'(\d+)', s)\<close>: the first maximal run of digits, \<open>None\<close> when there is none\<close>
  "first_digits s =
     (case dropWhile (\<lambda>c. \<not> is_digit c) s of
        [] \<Rightarrow> None
      | c # cs \<Rightarrow> Some (takeWhile is_digit (c # cs)))"

definition int_of_digits :: "string \<Rightarrow> int" where
  \<comment> \<open>\<^verbatim>\<open>int(...)\<close> of a run of digits\<close>
  "int_of_digits ds = foldl (\<lambda>n c. 10 * n + (int (of_char c) - 48)) 0 ds"

definition ordinal_suffix :: "char \<Rightarrow> char \<Rightarrow> bool" where
  "ordinal_suffix a b = ([a, b] \<in> {''st'', ''nd'', ''rd'', ''th''})"

fun strip_ordinals :: "bool \<Rightarrow> string \<Rightarrow> string" where
  \<comment> \<open>\<^verbatim>\<open>re.sub(r'(\d+)(st|nd|rd|th)', r'\1', s)\<close>; the flag says that the previous
      character was a digit of the text\<close>
  "strip_ordinals after_digit [] = []"
| "strip_ordinals after_digit [a] = [a]"
| "strip_ordinals after_digit (a # b # cs) =
     (if after_digit \<and> ordinal_suffix a b then strip_ordinals False cs
      else a # strip_ordinals (is_digit a) (b # cs))"

subsection \<open>The date parsers\<close>

fun try_formats :: "(string \<Rightarrow> string \<Rightarrow> pyexn + int) \<Rightarrow> string \<Rightarrow> string list \<Rightarrow> (pyexn + int) option" where
  \<comment> \<open>the loop \<^verbatim>\<open>for fmt in formats: try: return strptime(s, fmt) except ValueError: continue\<close>;
      \<open>None\<close> when the loop ends without a return, \<open>Some (Inl e)\<close> when another exception
      leaves it\<close>
  "try_formats strp s [] = None"
| "try_formats strp s (fmt # fmts) =
     (case strp s fmt of
        Inr d \<Rightarrow> Some (Inr d)
      | Inl ValueError \<Rightarrow> try_formats strp s fmts
      | Inl e \<Rightarrow> Some (Inl e))"

definition news_formats :: "string list" where
  "news_formats =
     [''%Y-%m-%d %H:%M:%S'', ''%Y-%m-%d'', ''%m/%d/%Y %H:%M:%S'', ''%m/%d/%Y'',
      ''%b %d, %Y %H:%M:%S'', ''%B %d, %Y %H:%M:%S'', ''%b %d, %Y'', ''%B %d, %Y'',
      ''%a, %d %b %Y %H:%M:%S %Z'', ''%a, %d %b %Y %H:%M:%S %z'']"

definition news_fallback :: "env \<Rightarrow> world \<Rightarrow> int option \<times> world" where
  \<comment> \<open>the last line of \<^verbatim>\<open>_parse_news_date\<close>: \<^verbatim>\<open>return datetime.now()\<close>, also reached
      from the \<^verbatim>\<open>except Exception\<close> handler\<close>
  "news_fallback E w = (case now E w of (t, w') \<Rightarrow> (Some t, w'))"

definition news_relative :: "env \<Rightarrow> string \<Rightarrow> int \<Rightarrow> world \<Rightarrow> int option \<times> world" where
  \<comment> \<open>\<^verbatim>\<open>n = int(re.search(r'(\d+)', s).group(1)); return datetime.now() - timedelta(unit=n)\<close>
      inside the \<^verbatim>\<open>try\<close>: a missing number, or a date out of range, goes to the handler\<close>
  "news_relative E s unit w =
     (case first_digits s of
        None \<Rightarrow> news_fallback E w
      | Some ds \<Rightarrow>
          (case now E w of (t, w1) \<Rightarrow>
             (case timedelta (int_of_digits ds * unit) of
                Inl e \<Rightarrow> news_fallback E w1
              | Inr d \<Rightarrow>
                  (case datetime_add t (- d) of
                     Inl e \<Rightarrow> news_fallback E w1
                   | Inr r \<Rightarrow> (Some r, w1)))))"

definition parse_news_date :: "env \<Rightarrow> string \<Rightarrow> world \<Rightarrow> int option \<times> world" where
  \<comment> \<open>\<^verbatim>\<open>NewsScraper._parse_news_date\<close>, declared \<^verbatim>\<open>Optional[datetime]\<close>\<close>
  "parse_news_date E date_str w =
     (if date_str = [] then (case now E w of (t, w') \<Rightarrow> (Some t, w'))
      else
        (let s = strip date_str in
         case try_formats (strptime E) s news_formats of
           Some (Inr d) \<Rightarrow> (Some d, w)
         | Some (Inl e) \<Rightarrow> news_fallback E w
         | None \<Rightarrow>
             if contains ''hour'' (lower s) then news_relative E s HOUR w
             else if contains ''day'' (lower s) then news_relative E s DAY w
             else if contains ''minute'' (lower s) then news_relative E s MINUTE w
             else news_fallback E w))"

definition date_formats :: "string list" where
  "date_formats =
     [''%Y-%m-%d'', ''%m/%d/%Y'', ''%m/%d/%y'', ''%b %d, %Y'', ''%B %d, %Y'',
      ''%d %b %Y'', ''%d %B %Y'']"

definition date_relative :: "env \<Rightarrow> int \<Rightarrow> world \<Rightarrow> int option \<times> world" where
  \<comment> \<open>\<^verbatim>\<open>return (datetime.now() + timedelta(days=k)).date()\<close> inside the \<^verbatim>\<open>try\<close>; the
      handler logs and the function ends with \<^verbatim>\<open>return None\<close>\<close>
  "date_relative E k w =
     (case now E w of (t, w1) \<Rightarrow>
        (case datetime_add t (k * DAY) of
           Inl e \<Rightarrow> (None, w1)
         | Inr r \<Rightarrow> (Some (to_date r), w1)))"

definition parse_date :: "env \<Rightarrow> string \<Rightarrow> world \<Rightarrow> int option \<times> world" where
  \<comment> \<open>\<^verbatim>\<open>EarningsScraper._parse_date\<close>, declared \<^verbatim>\<open>Optional[datetime]\<close>\<close>
  "parse_date E date_str w =
     (let s = strip date_str in
      case try_formats (strptime E) s date_formats of
        Some (Inr d) \<Rightarrow> (Some (to_date d), w)
      | Some (Inl e) \<Rightarrow> (None, w)
      | None \<Rightarrow>
          if contains ''today'' (lower s) then
            (case now E w of (t, w1) \<Rightarrow> (Some (to_date t), w1))
          else if contains ''tomorrow'' (lower s) then date_relative E 1 w
          else if contains ''yesterday'' (lower s) then date_relative E (- 1) w
          else (None, w))"

definition finviz_formats :: "string list" where
  "finviz_formats = [''%A, %B %d'', ''%B %d'', ''%m/%d/%Y'', ''%Y-%m-%d'']"

fun try_finviz_formats :: "env \<Rightarrow> int \<Rightarrow> string \<Rightarrow> string list \<Rightarrow> (pyexn + int) option" where
  \<comment> \<open>the loop of \<^verbatim>\<open>_parse_finviz_date\<close>: a date parsed without a year (1900) takes the
      current year; a \<^verbatim>\<open>ValueError\<close> of \<^verbatim>\<open>strptime\<close> or of \<^verbatim>\<open>replace\<close> tries the
      next format\<close>
  "try_finviz_formats E current_year s [] = None"
| "try_finviz_formats E current_year s (fmt # fmts) =
     (case strptime E s fmt of
        Inr d \<Rightarrow>
          (if year_of E d = 1900 then
             (case replace_year E d current_year of
                Inr d' \<Rightarrow> Some (Inr (to_date d'))
              | Inl ValueError \<Rightarrow> try_finviz_formats E current_year s fmts
              | Inl e \<Rightarrow> Some (Inl e))
           else Some (Inr (to_date d)))
      | Inl ValueError \<Rightarrow> try_finviz_formats E current_year s fmts
      | Inl e \<Rightarrow> Some (Inl e))"

definition parse_finviz_date :: "env \<Rightarrow> string \<Rightarrow> world \<Rightarrow> int option \<times> world" where
  \<comment> \<open>\<^verbatim>\<open>EarningsScraper._parse_finviz_date\<close>: falls back to today\<close>
  "parse_finviz_date E date_str w =
     (let s = strip_ordinals False (strip date_str) in
      case now E w of (t, w1) \<Rightarrow>
        (case try_finviz_formats E (year_of E t) s finviz_formats of
           Some (Inr d) \<Rightarrow> (Some d, w1)
         | _ \<Rightarrow> (case now E w1 of (t2, w2) \<Rightarrow> (Some (to_date t2), w2))))"

subsection \<open>Rows of the two tables\<close>

record earnings =
  ticker :: string
  company :: string
  date :: int
  time :: string
  source :: string

record article =
  news_ticker :: string
  title :: string
  url :: string
  news_date :: "int option"
  summary :: string
  full_text :: string
  news_source :: string

definition truthy :: "string option \<Rightarrow> bool" where
  \<comment> \<open>the truth value of an attribute or text that may be missing\<close>
  "truthy v = (case v of None \<Rightarrow> False | Some s \<Rightarrow> s \<noteq> [])"

definition returned :: "'a \<times> world \<Rightarrow> (pyexn + 'a) \<times> world" where
  \<comment> \<open>the outcome of a call that returns: the aggregators call their sources inside
      \<^verbatim>\<open>try\<close>, so a source is a function whose outcome may be an exception\<close>
  "returned r = (Inr (fst r), snd r)"

subsection \<open>The earnings adapters\<close>

fun finviz_rows :: "env \<Rightarrow> int \<Rightarrow> cell list list \<Rightarrow> int option \<Rightarrow> earnings list \<Rightarrow> world \<Rightarrow> earnings list \<times> world" where
  \<comment> \<open>the loop \<^verbatim>\<open>for row in rows\<close> of \<^verbatim>\<open>_scrape_finviz_earnings\<close>, with its
      variables \<^verbatim>\<open>current_date\<close> and \<^verbatim>\<open>earnings\<close>\<close>
  "finviz_rows E days_ahead [] current_date acc w = (acc, w)"
| "finviz_rows E days_ahead (cells # rows) current_date acc w =
     (if length cells = 1 \<and> truthy (colspan (cells ! 0)) then
        (case parse_finviz_date E (cell_text (cells ! 0)) w of
           (d, w1) \<Rightarrow> finviz_rows E days_ahead rows d acc w1)
      else
        (case current_date of
           None \<Rightarrow> finviz_rows E days_ahead rows current_date acc w
         | Some cur \<Rightarrow>
             if 3 \<le> length cells then
               (case cell_link (cells ! 1) of
                  None \<Rightarrow> finviz_rows E days_ahead rows current_date acc w
                | Some ticker_elem \<Rightarrow>
                    if a_text ticker_elem \<noteq> [] then
                      (case now E w of
                         (t, w1) \<Rightarrow>
                           if cur - to_date t \<le> days_ahead then
                             finviz_rows E days_ahead rows current_date
                               (acc @ [\<lparr>ticker = a_text ticker_elem,
                                        company = cell_text (cells ! 2),
                                        date = cur,
                                        time = cell_text (cells ! 0),
                                        source = ''Finviz''\<rparr>]) w1
                           else finviz_rows E days_ahead rows current_date acc w1)
                    else finviz_rows E days_ahead rows current_date acc w)
             else finviz_rows E days_ahead rows current_date acc w))"

definition scrape_finviz_earnings :: "env \<Rightarrow> int \<Rightarrow> world \<Rightarrow> earnings list \<times> world" where
  \<comment> \<open>\<^verbatim>\<open>EarningsScraper._scrape_finviz_earnings\<close>\<close>
  "scrape_finviz_earnings E days_ahead w =
     (case session_get E ''https://finviz.com/calendar.ashx'' w of
        (Inl e, w1) \<Rightarrow> ([], w1)
      | (Inr doc, w1) \<Rightarrow>
          (case calendar_table doc of
             None \<Rightarrow> ([], w1)
           | Some rows \<Rightarrow> finviz_rows E days_ahead rows None [] w1))"

fun yahoo_rows :: "env \<Rightarrow> int \<Rightarrow> int \<Rightarrow> cell list list \<Rightarrow> earnings list \<Rightarrow> world \<Rightarrow> earnings list \<times> world" where
  \<comment> \<open>the loop \<^verbatim>\<open>for row in rows\<close> of \<^verbatim>\<open>_scrape_yahoo_finance_api\<close>; \<open>today\<close>
      is the timestamp read when the adapter started. A row has four cells or more, so
      \<^verbatim>\<open>time_str\<close> is always the third cell, never its default \<^verbatim>\<open>"N/A"\<close>\<close>
  "yahoo_rows E days_ahead today [] acc w = (acc, w)"
| "yahoo_rows E days_ahead today (cells # rows) acc w =
     (if 4 \<le> length cells then
        (case cell_link (cells ! 0) of
           None \<Rightarrow> yahoo_rows E days_ahead today rows acc w
         | Some ticker_link \<Rightarrow>
             if a_text ticker_link \<noteq> [] then
               (case now E w of
                  (t, w1) \<Rightarrow>
                    if to_date today - to_date t \<le> days_ahead then
                      yahoo_rows E days_ahead today rows
                        (acc @ [\<lparr>ticker = a_text ticker_link,
                                 company = cell_text (cells ! 1),
                                 date = to_date today,
                                 time = cell_text (cells ! 2),
                                 source = ''Yahoo Finance''\<rparr>]) w1
                    else yahoo_rows E days_ahead today rows acc w1)
             else yahoo_rows E days_ahead today rows acc w)
      else yahoo_rows E days_ahead today rows acc w)"

fun yahoo_tables :: "env \<Rightarrow> int \<Rightarrow> int \<Rightarrow> cell list list list \<Rightarrow> earnings list \<Rightarrow> world \<Rightarrow> earnings list \<times> world" where
  \<comment> \<open>the loop \<^verbatim>\<open>for table in tables\<close>, each table without its header row\<close>
  "yahoo_tables E days_ahead today [] acc w = (acc, w)"
| "yahoo_tables E days_ahead today (rows # ts) acc w =
     (case yahoo_rows E days_ahead today (drop 1 rows) acc w of
        (acc1, w1) \<Rightarrow> yahoo_tables E days_ahead today ts acc1 w1)"

definition yahoo_calendar_url :: "env \<Rightarrow> int \<Rightarrow> int \<Rightarrow> string" where
  "yahoo_calendar_url E today end_date =
     ''https://finance.yahoo.com/calendar/earnings?from='' @ strftime E today ''%Y-%m-%d''
     @ ''&to='' @ strftime E end_date ''%Y-%m-%d''
     @ ''&day='' @ strftime E today ''%Y-%m-%d''"

definition scrape_yahoo_finance_api :: "env \<Rightarrow> int \<Rightarrow> world \<Rightarrow> earnings list \<times> world" where
  \<comment> \<open>\<^verbatim>\<open>EarningsScraper._scrape_yahoo_finance_api\<close>; the two timestamps it
      computes and never uses are left out\<close>
  "scrape_yahoo_finance_api E days_ahead w =
     (case now E w of
        (today, w1) \<Rightarrow>
          (case timedelta (days_ahead * DAY) of
             Inl e \<Rightarrow> ([], w1)
           | Inr d \<Rightarrow>
               (case datetime_add today d of
                  Inl e \<Rightarrow> ([], w1)
                | Inr end_date \<Rightarrow>
                    (case session_get E (yahoo_calendar_url E today end_date) w1 of
                       (Inl e, w2) \<Rightarrow> ([], w2)
                     | (Inr doc, w2) \<Rightarrow> yahoo_tables E days_ahead today (tables doc) [] w2))))"

definition after_last_paren :: "string \<Rightarrow> string" where
  \<comment> \<open>\<^verbatim>\<open>s.split('(')[-1]\<close>\<close>
  "after_last_paren s = rev (takeWhile (\<lambda>c. c \<noteq> CHR ''('') (rev s))"

definition investing_ticker :: "anchor \<Rightarrow> cell list \<Rightarrow> string" where
  \<comment> \<open>the ticker of a row of Investing.com: from the link's title, else from the first
      cell when that is at most five characters long\<close>
  "investing_ticker company_link cells =
     (let t = (case a_title company_link of None \<Rightarrow> [] | Some s \<Rightarrow> s);
          ticker = (if CHR ''('' \<in> set t
                    then filter (\<lambda>c. c \<noteq> CHR '')'') (after_last_paren t) else [])
      in if ticker = [] then
           (if cell_text (cells ! 0) \<noteq> [] \<and> length (cell_text (cells ! 0)) \<le> 5
            then cell_text (cells ! 0) else ticker)
         else ticker)"

fun investing_rows :: "env \<Rightarrow> cell list list \<Rightarrow> earnings list \<Rightarrow> world \<Rightarrow> earnings list \<times> world" where
  \<comment> \<open>the loop \<^verbatim>\<open>for row in rows\<close> of \<^verbatim>\<open>_scrape_investing_earnings\<close>\<close>
  "investing_rows E [] acc w = (acc, w)"
| "investing_rows E (cells # rows) acc w =
     (if 4 \<le> length cells then
        (case cell_link (cells ! 1) of
           None \<Rightarrow> investing_rows E rows acc w
         | Some company_link \<Rightarrow>
             (case now E w of
                (t, w1) \<Rightarrow>
                  if investing_ticker company_link cells \<noteq> [] \<and> a_text company_link \<noteq> [] then
                    investing_rows E rows
                      (acc @ [\<lparr>ticker = investing_ticker company_link cells,
                               company = a_text company_link,
                               date = to_date t,
                               time = cell_text (cells ! 2),
                               source = ''Investing.com''\<rparr>]) w1
                  else investing_rows E rows acc w1))
      else investing_rows E rows acc w)"

definition scrape_investing_earnings :: "env \<Rightarrow> int \<Rightarrow> world \<Rightarrow> earnings list \<times> world" where
  \<comment> \<open>\<^verbatim>\<open>EarningsScraper._scrape_investing_earnings\<close>\<close>
  "scrape_investing_earnings E days_ahead w =
     (case session_get E ''https://www.investing.com/earnings-calendar/'' w of
        (Inl e, w1) \<Rightarrow> ([], w1)
      | (Inr doc, w1) \<Rightarrow>
          (case calendar_table doc of
             None \<Rightarrow> ([], w1)
           | Some rows \<Rightarrow> investing_rows E (drop 1 rows) [] w1))"

fun marketwatch_rows :: "env \<Rightarrow> cell list list \<Rightarrow> earnings list \<Rightarrow> world \<Rightarrow> earnings list \<times> world" where
  \<comment> \<open>the loop \<^verbatim>\<open>for row in rows\<close> of \<^verbatim>\<open>_scrape_marketwatch_earnings\<close>\<close>
  "marketwatch_rows E [] acc w = (acc, w)"
| "marketwatch_rows E (cells # rows) acc w =
     (if 3 \<le> length cells then
        (let ticker = (case cell_link (cells ! 0) of
                         Some ticker_link \<Rightarrow> a_text ticker_link
                       | None \<Rightarrow> cell_text (cells ! 0))
         in case now E w of
              (t, w1) \<Rightarrow>
                if ticker \<noteq> [] \<and> cell_text (cells ! 1) \<noteq> [] then
                  marketwatch_rows E rows
                    (acc @ [\<lparr>ticker = ticker,
                             company = cell_text (cells ! 1),
                             date = to_date t,
                             time = cell_text (cells ! 2),
                             source = ''MarketWatch''\<rparr>]) w1
                else marketwatch_rows E rows acc w1)
      else marketwatch_rows E rows acc w)"

fun marketwatch_tables :: "env \<Rightarrow> cell list list list \<Rightarrow> earnings list \<Rightarrow> world \<Rightarrow> earnings list \<times> world" where
  "marketwatch_tables E [] acc w = (acc, w)"
| "marketwatch_tables E (rows # ts) acc w =
     (case marketwatch_rows E (drop 1 rows) acc w of
        (acc1, w1) \<Rightarrow> marketwatch_tables E ts acc1 w1)"

definition scrape_marketwatch_earnings :: "env \<Rightarrow> int \<Rightarrow> world \<Rightarrow> earnings list \<times> world" where
  \<comment> \<open>\<^verbatim>\<open>EarningsScraper._scrape_marketwatch_earnings\<close>\<close>
  "scrape_marketwatch_earnings E days_ahead w =
     (case session_get E ''https://www.marketwatch.com/tools/earnings-calendar'' w of
        (Inl e, w1) \<Rightarrow> ([], w1)
      | (Inr doc, w1) \<Rightarrow> marketwatch_tables E (tables doc) [] w1)"

subsection \<open>The earnings aggregator\<close>

fun drop_duplicates :: "('a \<Rightarrow> 'k) \<Rightarrow> 'k list \<Rightarrow> 'a list \<Rightarrow> 'a list" where
  \<comment> \<open>\<^verbatim>\<open>df.drop_duplicates(subset=key, keep='first')\<close>; \<open>seen\<close> are the keys of the
      rows kept so far\<close>
  "drop_duplicates key seen [] = []"
| "drop_duplicates key seen (x # xs) =
     (if key x \<in> set seen then drop_duplicates key seen xs
      else x # drop_duplicates key (key x # seen) xs)"

definition earnings_key :: "earnings \<Rightarrow> string \<times> int" where
  \<comment> \<open>\<^verbatim>\<open>subset=['ticker', 'date']\<close>\<close>
  "earnings_key r = (ticker r, date r)"

type_synonym earnings_source = "int \<Rightarrow> world \<Rightarrow> (pyexn + earnings list) \<times> world"

fun collect_earnings :: "earnings_source list \<Rightarrow> int \<Rightarrow> earnings list \<Rightarrow> world \<Rightarrow> earnings list \<times> world" where
  \<comment> \<open>the loop \<^verbatim>\<open>for source_func in sources\<close> of \<^verbatim>\<open>get_earnings_calendar\<close>: a source
      that raises is logged and skipped\<close>
  "collect_earnings [] days_ahead all_earnings w = (all_earnings, w)"
| "collect_earnings (source_func # sources) days_ahead all_earnings w =
     (case source_func days_ahead w of
        (Inl e, w1) \<Rightarrow> collect_earnings sources days_ahead all_earnings w1
      | (Inr earnings, w1) \<Rightarrow> collect_earnings sources days_ahead (all_earnings @ earnings) w1)"

definition earnings_table :: "earnings list \<Rightarrow> earnings list" where
  \<comment> \<open>what \<^verbatim>\<open>get_earnings_calendar\<close> does after its loop: an empty table when nothing was
      scraped, else the rows without duplicates, sorted by date. \<^verbatim>\<open>sort_values\<close> fixes no
      order among rows of one date; the model keeps theirs\<close>
  "earnings_table all_earnings =
     (if all_earnings = [] then []
      else sort_key date (drop_duplicates earnings_key [] all_earnings))"

definition get_earnings_calendar_from :: "earnings_source list \<Rightarrow> int \<Rightarrow> world \<Rightarrow> earnings list \<times> world" where
  \<comment> \<open>\<^verbatim>\<open>get_earnings_calendar\<close> for a given list \<^verbatim>\<open>sources\<close>\<close>
  "get_earnings_calendar_from sources days_ahead w =
     (case collect_earnings sources days_ahead [] w of
        (all_earnings, w1) \<Rightarrow> (earnings_table all_earnings, w1))"

definition earnings_sources :: "env \<Rightarrow> earnings_source list" where
  \<comment> \<open>the list \<^verbatim>\<open>sources\<close> of \<^verbatim>\<open>get_earnings_calendar\<close>, in its order\<close>
  "earnings_sources E =
     [\<lambda>d w. returned (scrape_finviz_earnings E d w),
      \<lambda>d w. returned (scrape_investing_earnings E d w),
      \<lambda>d w. returned (scrape_yahoo_finance_api E d w),
      \<lambda>d w. returned (scrape_marketwatch_earnings E d w)]"

definition get_earnings_calendar :: "env \<Rightarrow> int \<Rightarrow> world \<Rightarrow> earnings list \<times> world" where
  \<comment> \<open>\<^verbatim>\<open>EarningsScraper.get_earnings_calendar\<close>\<close>
  "get_earnings_calendar E days_ahead w =
     get_earnings_calendar_from (earnings_sources E) days_ahead w"

fun source_outcomes :: "earnings_source list \<Rightarrow> int \<Rightarrow> world \<Rightarrow> (pyexn + earnings list) list" where
  \<comment> \<open>what each source of the list gave, in the order of the list, when the aggregator
      ran them one after the other from \<open>w\<close>\<close>
  "source_outcomes [] days_ahead w = []"
| "source_outcomes (source_func # sources) days_ahead w =
     (case source_func days_ahead w of
        (r, w1) \<Rightarrow> r # source_outcomes sources days_ahead w1)"

definition records_of :: "(pyexn + 'a list) \<Rightarrow> 'a list" where
  \<comment> \<open>the records of an outcome: none when the source raised\<close>
  "records_of r = (case r of Inl e \<Rightarrow> [] | Inr xs \<Rightarrow> xs)"

subsection \<open>The article content extractor and the news adapters\<close>

definition parse_article :: "env \<Rightarrow> string \<Rightarrow> world \<Rightarrow> content \<times> world" where
  \<comment> \<open>\<^verbatim>\<open>NewsScraper._parse_article\<close>\<close>
  "parse_article E u w =
     (case newspaper E (downloads w) u of
        Inr c \<Rightarrow> (c, w\<lparr>downloads := Suc (downloads w)\<rparr>)
      | Inl e \<Rightarrow>
          (\<lparr>article_text = [], article_summary = [], authors = [], publish_date = None\<rparr>,
           w\<lparr>downloads := Suc (downloads w)\<rparr>))"

fun news_loop :: "('i \<Rightarrow> world \<Rightarrow> article option \<times> world) \<Rightarrow> 'i list \<Rightarrow> article list \<Rightarrow> world \<Rightarrow> article list \<times> world" where
  \<comment> \<open>the loop \<^verbatim>\<open>for item in items\<close> of a news adapter: the body appends an article
      or goes on to the next item\<close>
  "news_loop body [] articles w = (articles, w)"
| "news_loop body (item # items) articles w =
     (case body item w of
        (None, w1) \<Rightarrow> news_loop body items articles w1
      | (Some a, w1) \<Rightarrow> news_loop body items (articles @ [a]) w1)"

definition yahoo_item :: "env \<Rightarrow> string \<Rightarrow> news_item \<Rightarrow> world \<Rightarrow> article option \<times> world" where
  \<comment> \<open>the body of the loop of \<^verbatim>\<open>_get_yahoo_news\<close>\<close>
  "yahoo_item E tk item w =
     (case item_link item of
        None \<Rightarrow> (None, w)
      | Some link_elem \<Rightarrow>
          (let article_url = (case href link_elem of
                                None \<Rightarrow> None
                              | Some u \<Rightarrow> if u \<noteq> [] \<and> is_prefix ''/'' u
                                          then Some (''https://finance.yahoo.com'' @ u) else Some u);
               ttl = (case heading item of None \<Rightarrow> [] | Some t \<Rightarrow> t);
               date_str = (case timestamp item of None \<Rightarrow> [] | Some t \<Rightarrow> t)
           in case article_url of
                None \<Rightarrow> (None, w)
              | Some u \<Rightarrow>
                  if ttl \<noteq> [] \<and> u \<noteq> [] then
                    (case parse_article E u w of
                       (article_data, w1) \<Rightarrow>
                         (case parse_news_date E date_str w1 of
                            (d, w2) \<Rightarrow>
                              (Some \<lparr>news_ticker = tk, title = ttl, url = u,
                                     news_date = d,
                                     summary = article_summary article_data,
                                     full_text = article_text article_data,
                                     news_source = ''Yahoo Finance''\<rparr>, w2)))
                  else (None, w)))"

definition get_yahoo_news :: "env \<Rightarrow> string \<Rightarrow> int \<Rightarrow> world \<Rightarrow> article list \<times> world" where
  \<comment> \<open>\<^verbatim>\<open>NewsScraper._get_yahoo_news\<close>\<close>
  "get_yahoo_news E tk days_back w =
     (case session_get E (''https://finance.yahoo.com/quote/'' @ tk @ ''/news'') w of
        (Inl e, w1) \<Rightarrow> ([], w1)
      | (Inr doc, w1) \<Rightarrow> news_loop (yahoo_item E tk) (take 5 (news_items doc)) [] w1)"

definition marketwatch_item :: "env \<Rightarrow> string \<Rightarrow> news_item \<Rightarrow> world \<Rightarrow> article option \<times> world" where
  \<comment> \<open>the body of the loop of \<^verbatim>\<open>_get_marketwatch_news\<close>\<close>
  "marketwatch_item E tk item w =
     (case item_link item of
        None \<Rightarrow> (None, w)
      | Some link_elem \<Rightarrow>
          (let article_url = (case href link_elem of
                                None \<Rightarrow> None
                              | Some u \<Rightarrow> if u \<noteq> [] \<and> \<not> is_prefix ''http'' u
                                          then Some (''https://www.marketwatch.com'' @ u) else Some u);
               ttl = a_text link_elem;
               date_str = (case timestamp item of None \<Rightarrow> [] | Some t \<Rightarrow> t)
           in case article_url of
                None \<Rightarrow> (None, w)
              | Some u \<Rightarrow>
                  if ttl \<noteq> [] \<and> u \<noteq> [] then
                    (case parse_article E u w of
                       (article_data, w1) \<Rightarrow>
                         (case parse_news_date E date_str w1 of
                            (d, w2) \<Rightarrow>
                              (Some \<lparr>news_ticker = tk, title = ttl, url = u,
                                     news_date = d,
                                     summary = article_summary article_data,
                                     full_text = article_text article_data,
                                     news_source = ''MarketWatch''\<rparr>, w2)))
                  else (None, w)))"

definition get_marketwatch_news :: "env \<Rightarrow> string \<Rightarrow> int \<Rightarrow> world \<Rightarrow> article list \<times> world" where
  \<comment> \<open>\<^verbatim>\<open>NewsScraper._get_marketwatch_news\<close>\<close>
  "get_marketwatch_news E tk days_back w =
     (case session_get E (''https://www.marketwatch.com/investing/stock/'' @ tk @ ''/news'') w of
        (Inl e, w1) \<Rightarrow> ([], w1)
      | (Inr doc, w1) \<Rightarrow> news_loop (marketwatch_item E tk) (take 5 (news_items doc)) [] w1)"

definition too_old :: "env \<Rightarrow> int option \<Rightarrow> int \<Rightarrow> world \<Rightarrow> bool \<times> world" where
  \<comment> \<open>\<^verbatim>\<open>article_date and (datetime.now() - article_date).days > days_back\<close>\<close>
  "too_old E article_date days_back w =
     (case article_date of
        None \<Rightarrow> (False, w)
      | Some d \<Rightarrow> (case now E w of (t, w1) \<Rightarrow> (days_between t d > days_back, w1)))"

definition google_item :: "env \<Rightarrow> string \<Rightarrow> int \<Rightarrow> rss_item \<Rightarrow> world \<Rightarrow> article option \<times> world" where
  \<comment> \<open>the body of the loop of \<^verbatim>\<open>_get_google_news\<close>: an item without a title, a link
      or a date raises \<^verbatim>\<open>AttributeError\<close>, which the loop catches\<close>
  "google_item E tk days_back item w =
     (case (rss_title item, rss_link item, pubDate item) of
        (Some ttl, Some link, Some pub_date) \<Rightarrow>
          (case parse_news_date E pub_date w of
             (article_date, w1) \<Rightarrow>
               (case too_old E article_date days_back w1 of
                  (True, w2) \<Rightarrow> (None, w2)
                | (False, w2) \<Rightarrow>
                    (case parse_article E link w2 of
                       (article_data, w3) \<Rightarrow>
                         (Some \<lparr>news_ticker = tk, title = ttl, url = link,
                                news_date = article_date,
                                summary = article_summary article_data,
                                full_text = article_text article_data,
                                news_source = ''Google News''\<rparr>, w3))))
      | _ \<Rightarrow> (None, w))"

definition get_google_news :: "env \<Rightarrow> string \<Rightarrow> int \<Rightarrow> world \<Rightarrow> article list \<times> world" where
  \<comment> \<open>\<^verbatim>\<open>NewsScraper._get_google_news\<close>\<close>
  "get_google_news E tk days_back w =
     (case session_get E
             (''https://news.google.com/rss/search?q='' @ tk @ '' stock earnings financial news'') w of
        (Inl e, w1) \<Rightarrow> ([], w1)
      | (Inr doc, w1) \<Rightarrow> news_loop (google_item E tk days_back) (take 3 (rss_items doc)) [] w1)"

subsection \<open>The news aggregator\<close>

type_synonym news_source = "string \<Rightarrow> int \<Rightarrow> world \<Rightarrow> (pyexn + article list) \<times> world"

fun ticker_news_from :: "news_source list \<Rightarrow> string \<Rightarrow> int \<Rightarrow> article list \<Rightarrow> world \<Rightarrow> article list \<times> world" where
  \<comment> \<open>the loop \<^verbatim>\<open>for source_func in sources\<close> of \<^verbatim>\<open>_get_ticker_news\<close>\<close>
  "ticker_news_from [] tk days_back articles w = (articles, w)"
| "ticker_news_from (source_func # sources) tk days_back articles w =
     (case source_func tk days_back w of
        (Inl e, w1) \<Rightarrow> ticker_news_from sources tk days_back articles w1
      | (Inr source_articles, w1) \<Rightarrow>
          ticker_news_from sources tk days_back (articles @ source_articles) w1)"

fun collect_news :: "news_source list \<Rightarrow> string list \<Rightarrow> int \<Rightarrow> article list \<Rightarrow> world \<Rightarrow> article list \<times> world" where
  \<comment> \<open>the loop \<^verbatim>\<open>for ticker in tickers\<close> of \<^verbatim>\<open>get_news_for_tickers\<close>;
      \<^verbatim>\<open>_get_ticker_news\<close> returns, so the handler of the loop is never entered\<close>
  "collect_news sources [] days_back all_articles w = (all_articles, w)"
| "collect_news sources (tk # tickers) days_back all_articles w =
     (case ticker_news_from sources tk days_back [] w of
        (articles, w1) \<Rightarrow> collect_news sources tickers days_back (all_articles @ articles) w1)"

definition newest_first :: "article \<Rightarrow> nat \<times> int" where
  \<comment> \<open>the order of \<^verbatim>\<open>sort_values('date', ascending=False)\<close>: later dates first, rows
      without a date last\<close>
  "newest_first a = (case news_date a of None \<Rightarrow> (1, 0) | Some d \<Rightarrow> (0, - d))"

definition news_table :: "article list \<Rightarrow> article list" where
  \<comment> \<open>what \<^verbatim>\<open>get_news_for_tickers\<close> does after its loop; as for the earnings, the order
      among articles of one date is the model's, not fixed by \<^verbatim>\<open>sort_values\<close>\<close>
  "news_table all_articles =
     (if all_articles = [] then []
      else sort_key newest_first (drop_duplicates url [] all_articles))"

definition get_news_for_tickers_from :: "news_source list \<Rightarrow> string list \<Rightarrow> int \<Rightarrow> world \<Rightarrow> article list \<times> world" where
  "get_news_for_tickers_from sources tickers days_back w =
     (case collect_news sources tickers days_back [] w of
        (all_articles, w1) \<Rightarrow> (news_table all_articles, w1))"

definition news_sources :: "env \<Rightarrow> news_source list" where
  \<comment> \<open>the list \<^verbatim>\<open>sources\<close> of \<^verbatim>\<open>_get_ticker_news\<close>, in its order\<close>
  "news_sources E =
     [\<lambda>tk d w. returned (get_yahoo_news E tk d w),
      \<lambda>tk d w. returned (get_marketwatch_news E tk d w),
      \<lambda>tk d w. returned (get_google_news E tk d w)]"

definition get_ticker_news :: "env \<Rightarrow> string \<Rightarrow> int \<Rightarrow> world \<Rightarrow> article list \<times> world" where
  \<comment> \<open>\<^verbatim>\<open>NewsScraper._get_ticker_news\<close>\<close>
  "get_ticker_news E tk days_back w = ticker_news_from (news_sources E) tk days_back [] w"

definition get_news_for_tickers :: "env \<Rightarrow> string list \<Rightarrow> int \<Rightarrow> world \<Rightarrow> article list \<times> world" where
  \<comment> \<open>\<^verbatim>\<open>NewsScraper.get_news_for_tickers\<close>\<close>
  "get_news_for_tickers E tickers days_back w =
     get_news_for_tickers_from (news_sources E) tickers days_back w"

fun news_outcomes :: "news_source list \<Rightarrow> string \<Rightarrow> int \<Rightarrow> world \<Rightarrow> (pyexn + article list) list \<times> world" where
  \<comment> \<open>what each source gave for one ticker, in the order of the list\<close>
  "news_outcomes [] tk days_back w = ([], w)"
| "news_outcomes (source_func # sources) tk days_back w =
     (case source_func tk days_back w of
        (r, w1) \<Rightarrow> (case news_outcomes sources tk days_back w1 of (rs, w2) \<Rightarrow> (r # rs, w2)))"

fun all_news_outcomes :: "news_source list \<Rightarrow> string list \<Rightarrow> int \<Rightarrow> world \<Rightarrow> (pyexn + article list) list" where
  \<comment> \<open>what each source gave for each ticker, ticker by ticker\<close>
  "all_news_outcomes sources [] days_back w = []"
| "all_news_outcomes sources (tk # tickers) days_back w =
     (case news_outcomes sources tk days_back w of
        (rs, w1) \<Rightarrow> rs @ all_news_outcomes sources tickers days_back w1)"

subsection \<open>The ticker cleaner of the utilities\<close>



subsection \<open>Properties of rows and tables\<close>

definition not_older :: "int option \<Rightarrow> int option \<Rightarrow> bool" where
  \<comment> \<open>the first date may stand before the second in a table sorted newest first: it is
      not older, or the second is missing\<close>
  "not_older x y =
     (case y of None \<Rightarrow> True | Some e \<Rightarrow> (case x of None \<Rightarrow> False | Some d \<Rightarrow> e \<le> d))"

definition headline :: "article \<Rightarrow> string \<times> string \<times> string \<times> int option \<times> string" where
  \<comment> \<open>an article without the two fields the content extractor fills\<close>
  "headline a = (news_ticker a, title a, url a, news_date a, news_source a)"


subsection \<open>A run on example pages\<close>

text \<open>
  The clock stands at 2024-02-05 12:00:00 (day 738920) and advances by a microsecond per
  reading. Finviz lists one company under yesterday and one under today, Investing.com two
  rows it dates today, the other earnings sources fail. Yahoo Finance has one article for
  AAPL, whose download fails; Google News returns the same feed for AAPL and MSFT, with
  an article seven and a half days old and one much older.
\<close>

definition plain_cell :: "string \<Rightarrow> cell" where
  "plain_cell s = \<lparr>cell_text = s, colspan = None, cell_link = None\<rparr>"

definition link_cell :: "string \<Rightarrow> string option \<Rightarrow> cell" where
  "link_cell s ttl = \<lparr>cell_text = s, colspan = None,
     cell_link = Some \<lparr>a_text = s, a_title = ttl, href = None\<rparr>\<rparr>"

definition example_finviz :: page where
  "example_finviz =
     \<lparr>calendar_table = Some
        [[\<lparr>cell_text = ''Sunday, February 4th'', colspan = Some ''3'', cell_link = None\<rparr>],
         [plain_cell ''Before Market Open'', link_cell ''XOM'' None, plain_cell ''Exxon Mobil''],
         [\<lparr>cell_text = ''Monday, February 5th'', colspan = Some ''3'', cell_link = None\<rparr>],
         [plain_cell ''Before Market Open'', link_cell ''AAPL'' None, plain_cell ''Apple Inc.'']],
      tables = [], news_items = [], rss_items = []\<rparr>"

definition example_investing :: page where
  "example_investing =
     \<lparr>calendar_table = Some
        [[],
         [plain_cell '''', link_cell ''Microsoft Corp'' (Some ''Microsoft Corp (msft)''),
          plain_cell ''After close'', plain_cell ''2.78''],
         [plain_cell ''AAPL'', link_cell ''Apple'' None,
          plain_cell ''After close'', plain_cell ''2.10'']],
      tables = [], news_items = [], rss_items = []\<rparr>"

definition example_quote_news :: page where
  "example_quote_news =
     \<lparr>calendar_table = None, tables = [],
      news_items =
        [\<lparr>item_link = Some \<lparr>a_text = ''Apple beats'', a_title = None, href = Some ''/news/apple-beats.html''\<rparr>,
          heading = Some ''Apple beats estimates'', timestamp = Some ''2 hours ago''\<rparr>,
         \<lparr>item_link = None, heading = Some ''Sponsored'', timestamp = None\<rparr>],
      rss_items = []\<rparr>"

definition example_feed :: page where
  "example_feed =
     \<lparr>calendar_table = None, tables = [], news_items = [],
      rss_items =
        [\<lparr>rss_title = Some ''Apple earnings preview'',
          rss_link = Some ''https://example.com/apple-preview'',
          pubDate = Some ''Sun, 28 Jan 2024 23:00:00 GMT''\<rparr>,
         \<lparr>rss_title = Some ''Apple a year ago'',
          rss_link = Some ''https://example.com/apple-2023'',
          pubDate = Some ''400 days ago''\<rparr>]\<rparr>"

definition example_env :: env where
  "example_env =
     \<lparr>clock = (\<lambda>k. 738920 * DAY + 12 * HOUR + int k),
      strptime = (\<lambda>s fmt.
         if s = ''2024-02-05'' \<and> fmt = ''%Y-%m-%d'' then Inr (738920 * DAY)
         else if s = ''Sunday, February 4'' \<and> fmt = ''%A, %B %d'' then Inr (693629 * DAY)
         else if s = ''Monday, February 5'' \<and> fmt = ''%A, %B %d'' then Inr (693630 * DAY)
         else if s = ''Sun, 28 Jan 2024 23:00:00 GMT'' \<and> fmt = ''%a, %d %b %Y %H:%M:%S %Z''
           then Inr (738912 * DAY + 23 * HOUR)
         else Inl ValueError),
      strftime = (\<lambda>t fmt. ''2024-02-05''),
      year_of = (\<lambda>t. if t < 700000 * DAY then 1900 else 2024),
      replace_year = (\<lambda>t y. if y = 2024 then Inr (t + 45290 * DAY) else Inl ValueError),
      fetch = (\<lambda>k u.
         if u = ''https://finviz.com/calendar.ashx'' then Inr example_finviz
         else if u = ''https://www.investing.com/earnings-calendar/'' then Inr example_investing
         else if u = ''https://finance.yahoo.com/quote/AAPL/news'' then Inr example_quote_news
         else if u = ''https://news.google.com/rss/search?q=AAPL stock earnings financial news''
           then Inr example_feed
         else if u = ''https://news.google.com/rss/search?q=MSFT stock earnings financial news''
           then Inr example_feed
         else Inl RequestException),
      newspaper = (\<lambda>k u.
         if u = ''https://example.com/apple-preview''
         then Inr \<lparr>article_text = ''Apple reports on Thursday.'', article_summary = ''Apple reports.'',
                   authors = [], publish_date = None\<rparr>
         else Inl RequestException)\<rparr>"

definition world0 :: world where
  "world0 = \<lparr>clock_reads = 0, requests = 0, downloads = 0\<rparr>"





definition online_content :: content where
  \<comment> \<open>what the extractor gives for an article it can reach\<close>
  "online_content =
     \<lparr>article_text = ''Full text.'', article_summary = ''Summary.'', authors = [],
      publish_date = None\<rparr>"

section \<open>Theorems\<close>

subsection \<open>The date parsers\<close>



lemma news_fallback_eq:
  "news_fallback E w = (Some (clock E (clock_reads w)), w\<lparr>clock_reads := Suc (clock_reads w)\<rparr>)"
  by (simp add: news_fallback_def now_def)



lemma try_formats_soon: "try_formats (strptime example_env) ''soon'' fmts = None"
  by (induction fmts) (simp_all add: example_env_def)

lemma strip_soon: "strip ''soon'' = ''soon''"
  by (simp add: strip_def is_space_def)


text \<open>
  Claim C5, as amended. A text that matches no format and no relative phrase never makes
  a parser raise, and what comes back depends on the parser: \<^verbatim>\<open>_parse_news_date\<close> returns
  the current time (one reading of the clock; no caller supplies a fallback),
  \<^verbatim>\<open>_parse_finviz_date\<close> returns today's date, and \<^verbatim>\<open>_parse_date\<close> returns
  \<^verbatim>\<open>None\<close>.
\<close>

theorem date_fallback:
  "(try_formats (strptime E) (strip s) news_formats = None \<and>
    \<not> contains ''hour'' (lower (strip s)) \<and> \<not> contains ''day'' (lower (strip s)) \<and>
    \<not> contains ''minute'' (lower (strip s)) \<longrightarrow>
      parse_news_date E s w =
        (Some (clock E (clock_reads w)), w\<lparr>clock_reads := Suc (clock_reads w)\<rparr>)) \<and>
   (try_finviz_formats E (year_of E (clock E (clock_reads w)))
      (strip_ordinals False (strip s)) finviz_formats = None \<longrightarrow>
      fst (parse_finviz_date E s w) = Some (to_date (clock E (Suc (clock_reads w))))) \<and>
   (try_formats (strptime E) (strip s) date_formats = None \<and>
    \<not> contains ''today'' (lower (strip s)) \<and> \<not> contains ''tomorrow'' (lower (strip s)) \<and>
    \<not> contains ''yesterday'' (lower (strip s)) \<longrightarrow>
      parse_date E s w = (None, w))"
  by (simp add: parse_news_date_def parse_date_def parse_finviz_date_def Let_def now_def
      news_fallback_eq)

text \<open>
  The claim as the specification states it fails for \<^verbatim>\<open>_parse_date\<close>: no fallback
  timestamp comes back, but \<^verbatim>\<open>None\<close>.
\<close>

theorem parse_date_gives_None:
  "try_formats (strptime example_env) (strip ''soon'') date_formats = None \<and>
   \<not> contains ''today'' (lower (strip ''soon'')) \<and>
   \<not> contains ''tomorrow'' (lower (strip ''soon'')) \<and>
   \<not> contains ''yesterday'' (lower (strip ''soon'')) \<and>
   fst (parse_date example_env ''soon'' world0) = None"
  by (simp add: strip_soon try_formats_soon parse_date_def Let_def lower_def lower_char_def)

lemma try_finviz_formats_soon:
  "try_finviz_formats example_env y ''soon'' fmts = None"
  by (induction fmts) (simp_all add: example_env_def)

lemma strip_ordinals_soon: "strip_ordinals False ''soon'' = ''soon''"
  by (simp add: ordinal_suffix_def is_digit_def)

theorem date_fallback_witness:
  "try_formats (strptime example_env) (strip ''soon'') news_formats = None \<and>
   \<not> contains ''hour'' (lower (strip ''soon'')) \<and> \<not> contains ''day'' (lower (strip ''soon'')) \<and>
   \<not> contains ''minute'' (lower (strip ''soon'')) \<and>
   try_finviz_formats example_env (year_of example_env (clock example_env (clock_reads world0)))
      (strip_ordinals False (strip ''soon'')) finviz_formats = None \<and>
   try_formats (strptime example_env) (strip ''soon'') date_formats = None \<and>
   \<not> contains ''today'' (lower (strip ''soon'')) \<and>
   \<not> contains ''tomorrow'' (lower (strip ''soon'')) \<and>
   \<not> contains ''yesterday'' (lower (strip ''soon'')) \<and>
   parse_news_date example_env ''soon'' world0 =
     (Some (738920 * DAY + 12 * HOUR), \<lparr>clock_reads = 1, requests = 0, downloads = 0\<rparr>) \<and>
   fst (parse_finviz_date example_env ''soon'' world0) = Some 738920 \<and>
   parse_date example_env ''soon'' world0 = (None, world0)"
proof -
  have a: "try_formats (strptime example_env) (strip ''soon'') news_formats = None"
    and b: "try_formats (strptime example_env) (strip ''soon'') date_formats = None"
    by (simp_all add: strip_soon try_formats_soon)
  have f: "try_finviz_formats example_env (year_of example_env (clock example_env (clock_reads world0)))
      (strip_ordinals False (strip ''soon'')) finviz_formats = None"
    unfolding strip_soon strip_ordinals_soon by (rule try_finviz_formats_soon)
  have c: "\<not> contains ''hour'' (lower (strip ''soon''))"
      "\<not> contains ''day'' (lower (strip ''soon''))"
      "\<not> contains ''minute'' (lower (strip ''soon''))"
      "\<not> contains ''today'' (lower (strip ''soon''))"
      "\<not> contains ''tomorrow'' (lower (strip ''soon''))"
      "\<not> contains ''yesterday'' (lower (strip ''soon''))"
    by (simp_all add: strip_soon lower_def lower_char_def)
  have t: "to_date (clock example_env (Suc (clock_reads world0))) = 738920"
    by (simp add: example_env_def world0_def to_date_def DAY_def HOUR_def)
  from a b c f t date_fallback [of example_env "''soon''" world0]
  show ?thesis by (simp add: example_env_def world0_def)
qed

subsection \<open>Removing duplicates and sorting\<close>

lemma drop_duplicates_subset: "set (drop_duplicates key seen xs) \<subseteq> set xs"
  by (induction xs arbitrary: seen) auto

lemma drop_duplicates_keys:
  "key ` set (drop_duplicates key seen xs) = key ` set xs - set seen"
  by (induction xs arbitrary: seen) auto

lemma drop_duplicates_distinct: "distinct (map key (drop_duplicates key seen xs))"
  by (induction xs arbitrary: seen) (auto simp: drop_duplicates_keys)

lemma drop_duplicates_first:
  "x \<in> set (drop_duplicates key seen xs) \<Longrightarrow> find (\<lambda>y. key y = key x) xs = Some x"
proof (induction xs arbitrary: seen)
  case Nil
  then show ?case by simp
next
  case (Cons a xs)
  have notseen: "key x \<notin> set seen"
    using Cons.prems drop_duplicates_keys [of key seen "a # xs"] by blast
  show ?case
  proof (cases "key a \<in> set seen")
    case True
    with Cons notseen show ?thesis by auto
  next
    case False
    show ?thesis
    proof (cases "x = a")
      case True
      then show ?thesis by simp
    next
      case ne: False
      with False Cons.prems have mem: "x \<in> set (drop_duplicates key (key a # seen) xs)"
        by simp
      then have "key x \<notin> set (key a # seen)"
        using drop_duplicates_keys [of key "key a # seen" xs] by blast
      with Cons.IH [OF mem] show ?thesis by auto
    qed
  qed
qed

lemma distinct_map_insort_key:
  "distinct (map f (insort_key k x xs)) = (f x \<notin> f ` set xs \<and> distinct (map f xs))"
  by (induction xs) (auto simp: set_insort_key)

lemma distinct_map_sort_key: "distinct (map f (sort_key k xs)) = distinct (map f xs)"
  by (induction xs) (simp_all add: distinct_map_insort_key)

lemma collect_earnings_outcomes:
  "fst (collect_earnings sources d acc w) =
     acc @ concat (map records_of (source_outcomes sources d w))"
  by (induction sources arbitrary: acc w)
     (auto simp: records_of_def split: prod.splits sum.splits)

lemma earnings_table_props:
  "distinct (map earnings_key (earnings_table xs)) \<and>
   sorted (map date (earnings_table xs)) \<and>
   set (earnings_table xs) \<subseteq> set xs \<and>
   earnings_key ` set (earnings_table xs) = earnings_key ` set xs \<and>
   (\<forall>r \<in> set (earnings_table xs). find (\<lambda>x. earnings_key x = earnings_key r) xs = Some r)"
  using drop_duplicates_subset [of earnings_key "[]" xs]
  by (auto simp: earnings_table_def distinct_map_sort_key drop_duplicates_distinct
      drop_duplicates_keys drop_duplicates_first)

text \<open>
  Claim C1. Whatever the earnings sources return, the table of \<^verbatim>\<open>get_earnings_calendar\<close>
  holds one row per (ticker, date) pair among the records returned, that row is the first
  with its pair in the order in which the sources were called, and the table is sorted
  by date, ascending.
\<close>

theorem earnings_dedup_first_sorted:
  "distinct (map earnings_key (fst (get_earnings_calendar_from sources d w))) \<and>
   sorted (map date (fst (get_earnings_calendar_from sources d w))) \<and>
   earnings_key ` set (fst (get_earnings_calendar_from sources d w)) =
     earnings_key ` set (concat (map records_of (source_outcomes sources d w))) \<and>
   (\<forall>r \<in> set (fst (get_earnings_calendar_from sources d w)).
      find (\<lambda>x. earnings_key x = earnings_key r)
        (concat (map records_of (source_outcomes sources d w))) = Some r)"
proof -
  have "fst (get_earnings_calendar_from sources d w) =
      earnings_table (concat (map records_of (source_outcomes sources d w)))"
    using collect_earnings_outcomes [of sources d "[]" w]
    by (auto simp add: get_earnings_calendar_from_def split: prod.splits)
  then show ?thesis
    using earnings_table_props [of "concat (map records_of (source_outcomes sources d w))"]
    by simp
qed

lemma ticker_news_outcomes:
  "ticker_news_from sources tk d acc w =
     (acc @ concat (map records_of (fst (news_outcomes sources tk d w))),
      snd (news_outcomes sources tk d w))"
  by (induction sources arbitrary: acc w)
     (auto simp: records_of_def split: prod.splits sum.splits)

lemma collect_news_outcomes:
  "fst (collect_news sources tickers d acc w) =
     acc @ concat (map records_of (all_news_outcomes sources tickers d w))"
  by (induction tickers arbitrary: acc w)
     (auto simp: ticker_news_outcomes split: prod.splits)

lemma newest_first_le:
  "newest_first a \<le> newest_first b \<Longrightarrow> not_older (news_date a) (news_date b)"
  by (auto simp: newest_first_def not_older_def less_eq_prod_def split: option.splits)

lemma news_table_props:
  "distinct (map url (news_table xs)) \<and>
   sorted_wrt (\<lambda>a b. not_older (news_date a) (news_date b)) (news_table xs) \<and>
   set (news_table xs) \<subseteq> set xs \<and>
   url ` set (news_table xs) = url ` set xs \<and>
   (\<forall>r \<in> set (news_table xs). find (\<lambda>x. url x = url r) xs = Some r)"
proof -
  have "sorted (map newest_first (news_table xs))"
    by (simp add: news_table_def)
  then have "sorted_wrt (\<lambda>a b. newest_first a \<le> newest_first b) (news_table xs)"
    by (simp add: sorted_map)
  then have s: "sorted_wrt (\<lambda>a b. not_older (news_date a) (news_date b)) (news_table xs)"
    by (rule sorted_wrt_mono_rel [rotated]) (simp add: newest_first_le)
  show ?thesis
    using drop_duplicates_subset [of url "[]" xs] s
    by (auto simp: news_table_def distinct_map_sort_key drop_duplicates_distinct
      drop_duplicates_keys drop_duplicates_first)
qed


lemma example_calendar:
  "get_earnings_calendar example_env 30 world0 =
    ([\<lparr>ticker = ''XOM'', company = ''Exxon Mobil'', date = 738919,
        time = ''Before Market Open'', source = ''Finviz''\<rparr>,
      \<lparr>ticker = ''AAPL'', company = ''Apple Inc.'', date = 738920,
        time = ''Before Market Open'', source = ''Finviz''\<rparr>,
      \<lparr>ticker = ''msft'', company = ''Microsoft Corp'', date = 738920,
        time = ''After close'', source = ''Investing.com''\<rparr>],
     \<lparr>clock_reads = 7, requests = 4, downloads = 0\<rparr>)"
  by code_simp

lemma example_outcomes:
  "source_outcomes (earnings_sources example_env) 30 world0 =
    [Inr [\<lparr>ticker = ''XOM'', company = ''Exxon Mobil'', date = 738919,
            time = ''Before Market Open'', source = ''Finviz''\<rparr>,
          \<lparr>ticker = ''AAPL'', company = ''Apple Inc.'', date = 738920,
            time = ''Before Market Open'', source = ''Finviz''\<rparr>],
     Inr [\<lparr>ticker = ''msft'', company = ''Microsoft Corp'', date = 738920,
            time = ''After close'', source = ''Investing.com''\<rparr>,
          \<lparr>ticker = ''AAPL'', company = ''Apple'', date = 738920,
            time = ''After close'', source = ''Investing.com''\<rparr>],
     Inr [], Inr []]"
  by code_simp

theorem earnings_dedup_first_sorted_witness:
  "source_outcomes (earnings_sources example_env) 30 world0 =
    [Inr [\<lparr>ticker = ''XOM'', company = ''Exxon Mobil'', date = 738919,
            time = ''Before Market Open'', source = ''Finviz''\<rparr>,
          \<lparr>ticker = ''AAPL'', company = ''Apple Inc.'', date = 738920,
            time = ''Before Market Open'', source = ''Finviz''\<rparr>],
     Inr [\<lparr>ticker = ''msft'', company = ''Microsoft Corp'', date = 738920,
            time = ''After close'', source = ''Investing.com''\<rparr>,
          \<lparr>ticker = ''AAPL'', company = ''Apple'', date = 738920,
            time = ''After close'', source = ''Investing.com''\<rparr>],
     Inr [], Inr []] \<and>
   fst (get_earnings_calendar_from (earnings_sources example_env) 30 world0) =
    [\<lparr>ticker = ''XOM'', company = ''Exxon Mobil'', date = 738919,
       time = ''Before Market Open'', source = ''Finviz''\<rparr>,
     \<lparr>ticker = ''AAPL'', company = ''Apple Inc.'', date = 738920,
       time = ''Before Market Open'', source = ''Finviz''\<rparr>,
     \<lparr>ticker = ''msft'', company = ''Microsoft Corp'', date = 738920,
       time = ''After close'', source = ''Investing.com''\<rparr>] \<and>
   distinct (map earnings_key (fst (get_earnings_calendar_from (earnings_sources example_env) 30 world0))) \<and>
   sorted (map date (fst (get_earnings_calendar_from (earnings_sources example_env) 30 world0))) \<and>
   find (\<lambda>x. earnings_key x = (''AAPL'', 738920))
     (concat (map records_of (source_outcomes (earnings_sources example_env) 30 world0))) =
     Some \<lparr>ticker = ''AAPL'', company = ''Apple Inc.'', date = 738920,
       time = ''Before Market Open'', source = ''Finviz''\<rparr>"
proof -
  have t: "fst (get_earnings_calendar_from (earnings_sources example_env) 30 world0) =
    [\<lparr>ticker = ''XOM'', company = ''Exxon Mobil'', date = 738919,
       time = ''Before Market Open'', source = ''Finviz''\<rparr>,
     \<lparr>ticker = ''AAPL'', company = ''Apple Inc.'', date = 738920,
       time = ''Before Market Open'', source = ''Finviz''\<rparr>,
     \<lparr>ticker = ''msft'', company = ''Microsoft Corp'', date = 738920,
       time = ''After close'', source = ''Investing.com''\<rparr>]"
    using example_calendar by (simp add: get_earnings_calendar_def)
  have "\<forall>r \<in> set (fst (get_earnings_calendar_from (earnings_sources example_env) 30 world0)).
      find (\<lambda>x. earnings_key x = earnings_key r)
        (concat (map records_of (source_outcomes (earnings_sources example_env) 30 world0))) = Some r"
    and d: "distinct (map earnings_key (fst (get_earnings_calendar_from (earnings_sources example_env) 30 world0)))"
    and s: "sorted (map date (fst (get_earnings_calendar_from (earnings_sources example_env) 30 world0)))"
    using earnings_dedup_first_sorted [of "earnings_sources example_env" 30 world0] by blast+
  then have "find (\<lambda>x. earnings_key x = (''AAPL'', 738920))
     (concat (map records_of (source_outcomes (earnings_sources example_env) 30 world0))) =
     Some \<lparr>ticker = ''AAPL'', company = ''Apple Inc.'', date = 738920,
       time = ''Before Market Open'', source = ''Finviz''\<rparr>"
    unfolding t by (simp add: earnings_key_def)
  with t d s example_outcomes show ?thesis by simp
qed

text \<open>
  Claim C3. Whatever the news sources return, the table of \<^verbatim>\<open>get_news_for_tickers\<close>
  holds one article per URL among those returned, that article is the first with its URL,
  and the table is sorted by date, newest first.
\<close>

theorem news_dedup_first_newest:
  "distinct (map url (fst (get_news_for_tickers_from sources tickers d w))) \<and>
   sorted_wrt (\<lambda>a b. not_older (news_date a) (news_date b))
     (fst (get_news_for_tickers_from sources tickers d w)) \<and>
   url ` set (fst (get_news_for_tickers_from sources tickers d w)) =
     url ` set (concat (map records_of (all_news_outcomes sources tickers d w))) \<and>
   (\<forall>a \<in> set (fst (get_news_for_tickers_from sources tickers d w)).
      find (\<lambda>x. url x = url a)
        (concat (map records_of (all_news_outcomes sources tickers d w))) = Some a)"
proof -
  have "fst (get_news_for_tickers_from sources tickers d w) =
      news_table (concat (map records_of (all_news_outcomes sources tickers d w)))"
    using collect_news_outcomes [of sources tickers d "[]" w]
    by (auto simp add: get_news_for_tickers_from_def split: prod.splits)
  then show ?thesis
    using news_table_props [of "concat (map records_of (all_news_outcomes sources tickers d w))"]
    by simp
qed

lemma example_news:
  "get_news_for_tickers example_env [''AAPL'', ''MSFT''] 7 world0 =
    ([\<lparr>news_ticker = ''AAPL'', title = ''Apple beats estimates'',
        url = ''https://finance.yahoo.com/news/apple-beats.html'',
        news_date = Some 63842724000000000, summary = [], full_text = [],
        news_source = ''Yahoo Finance''\<rparr>,
      \<lparr>news_ticker = ''AAPL'', title = ''Apple earnings preview'',
        url = ''https://example.com/apple-preview'',
        news_date = Some 63842079600000000, summary = ''Apple reports.'',
        full_text = ''Apple reports on Thursday.'',
        news_source = ''Google News''\<rparr>],
     \<lparr>clock_reads = 7, requests = 6, downloads = 3\<rparr>)"
  by code_simp

lemma example_news_outcomes:
  "all_news_outcomes (news_sources example_env) [''AAPL'', ''MSFT''] 7 world0 =
    [Inr [\<lparr>news_ticker = ''AAPL'', title = ''Apple beats estimates'',
            url = ''https://finance.yahoo.com/news/apple-beats.html'',
            news_date = Some 63842724000000000, summary = [], full_text = [],
            news_source = ''Yahoo Finance''\<rparr>],
     Inr [],
     Inr [\<lparr>news_ticker = ''AAPL'', title = ''Apple earnings preview'',
            url = ''https://example.com/apple-preview'',
            news_date = Some 63842079600000000, summary = ''Apple reports.'',
            full_text = ''Apple reports on Thursday.'',
            news_source = ''Google News''\<rparr>],
     Inr [], Inr [],
     Inr [\<lparr>news_ticker = ''MSFT'', title = ''Apple earnings preview'',
            url = ''https://example.com/apple-preview'',
            news_date = Some 63842079600000000, summary = ''Apple reports.'',
            full_text = ''Apple reports on Thursday.'',
            news_source = ''Google News''\<rparr>]]"
  by code_simp

theorem news_dedup_first_newest_witness:
  "fst (get_news_for_tickers_from (news_sources example_env) [''AAPL'', ''MSFT''] 7 world0) =
    [\<lparr>news_ticker = ''AAPL'', title = ''Apple beats estimates'',
       url = ''https://finance.yahoo.com/news/apple-beats.html'',
       news_date = Some 63842724000000000, summary = [], full_text = [],
       news_source = ''Yahoo Finance''\<rparr>,
     \<lparr>news_ticker = ''AAPL'', title = ''Apple earnings preview'',
       url = ''https://example.com/apple-preview'',
       news_date = Some 63842079600000000, summary = ''Apple reports.'',
       full_text = ''Apple reports on Thursday.'',
       news_source = ''Google News''\<rparr>] \<and>
   length (concat (map records_of
     (all_news_outcomes (news_sources example_env) [''AAPL'', ''MSFT''] 7 world0))) = 3 \<and>
   distinct (map url
     (fst (get_news_for_tickers_from (news_sources example_env) [''AAPL'', ''MSFT''] 7 world0))) \<and>
   sorted_wrt (\<lambda>a b. not_older (news_date a) (news_date b))
     (fst (get_news_for_tickers_from (news_sources example_env) [''AAPL'', ''MSFT''] 7 world0)) \<and>
   find (\<lambda>x. url x = ''https://example.com/apple-preview'')
     (concat (map records_of
       (all_news_outcomes (news_sources example_env) [''AAPL'', ''MSFT''] 7 world0))) =
     Some \<lparr>news_ticker = ''AAPL'', title = ''Apple earnings preview'',
       url = ''https://example.com/apple-preview'',
       news_date = Some 63842079600000000, summary = ''Apple reports.'',
       full_text = ''Apple reports on Thursday.'',
       news_source = ''Google News''\<rparr>"
proof -
  let ?t = "fst (get_news_for_tickers_from (news_sources example_env) [''AAPL'', ''MSFT''] 7 world0)"
  let ?all = "concat (map records_of
       (all_news_outcomes (news_sources example_env) [''AAPL'', ''MSFT''] 7 world0))"
  have t: "?t =
    [\<lparr>news_ticker = ''AAPL'', title = ''Apple beats estimates'',
       url = ''https://finance.yahoo.com/news/apple-beats.html'',
       news_date = Some 63842724000000000, summary = [], full_text = [],
       news_source = ''Yahoo Finance''\<rparr>,
     \<lparr>news_ticker = ''AAPL'', title = ''Apple earnings preview'',
       url = ''https://example.com/apple-preview'',
       news_date = Some 63842079600000000, summary = ''Apple reports.'',
       full_text = ''Apple reports on Thursday.'',
       news_source = ''Google News''\<rparr>]"
    using example_news by (simp add: get_news_for_tickers_def)
  have f: "\<forall>a \<in> set ?t. find (\<lambda>x. url x = url a) ?all = Some a"
    and d: "distinct (map url ?t)"
    and s: "sorted_wrt (\<lambda>a b. not_older (news_date a) (news_date b)) ?t"
    using news_dedup_first_newest [of "news_sources example_env" "[''AAPL'', ''MSFT'']" 7 world0]
    by blast+
  from f have "find (\<lambda>x. url x = ''https://example.com/apple-preview'') ?all =
     Some \<lparr>news_ticker = ''AAPL'', title = ''Apple earnings preview'',
       url = ''https://example.com/apple-preview'',
       news_date = Some 63842079600000000, summary = ''Apple reports.'',
       full_text = ''Apple reports on Thursday.'',
       news_source = ''Google News''\<rparr>"
    unfolding t by simp
  moreover have "length ?all = 3"
    unfolding example_news_outcomes by (simp add: records_of_def)
  ultimately show ?thesis using t d s by simp
qed







subsection \<open>The earnings adapters\<close>


lemma news_fallback_world:
  "clock_reads w \<le> clock_reads (snd (news_fallback E w)) \<and>
   downloads (snd (news_fallback E w)) = downloads w"
  by (simp add: news_fallback_def now_def)

lemma news_relative_world:
  "clock_reads w \<le> clock_reads (snd (news_relative E s u w)) \<and>
   downloads (snd (news_relative E s u w)) = downloads w"
  by (simp add: news_relative_def news_fallback_def now_def split: option.splits sum.splits)

lemma parse_news_date_world:
  "clock_reads w \<le> clock_reads (snd (parse_news_date E s w)) \<and>
   downloads (snd (parse_news_date E s w)) = downloads w"
  using news_fallback_world [of w E] news_relative_world [of w E "strip s"]
  by (simp add: parse_news_date_def Let_def now_def split: option.splits sum.splits)


lemma parse_article_world:
  "clock_reads (snd (parse_article E u w)) = clock_reads w \<and>
   downloads (snd (parse_article E u w)) = Suc (downloads w)"
  by (simp add: parse_article_def split: sum.splits)



































subsection \<open>The news adapters\<close>


lemma news_loop_length:
  "length (fst (news_loop body items acc w)) \<le> length acc + length items"
proof (induction items arbitrary: acc w)
  case Nil
  then show ?case by simp
next
  case (Cons item items)
  obtain r w1 where b: "body item w = (r, w1)"
    by (cases "body item w")
  show ?case
    using Cons.IH [of acc w1] Cons.IH [of "acc @ [the r]" w1] b
    by (cases r) auto
qed

lemma news_loop_downloads:
  assumes body: "\<And>item w. downloads (snd (body item w)) \<le> Suc (downloads w)"
  shows "downloads (snd (news_loop body items acc w)) \<le> downloads w + length items"
proof (induction items arbitrary: acc w)
  case Nil
  then show ?case by simp
next
  case (Cons item items)
  obtain r w1 where b: "body item w = (r, w1)"
    by (cases "body item w")
  have "downloads w1 \<le> Suc (downloads w)"
    using body [of item w] b by simp
  then show ?case
    using Cons.IH [of acc w1] Cons.IH [of "acc @ [the r]" w1] b
    by (cases r) auto
qed

lemma parse_article_worldD:
  "parse_article E u w = (c, w1) \<Longrightarrow>
     clock_reads w1 = clock_reads w \<and> downloads w1 = Suc (downloads w)"
  using parse_article_world [of E u w] by simp

lemma parse_news_date_worldD:
  "parse_news_date E s w = (dt, w1) \<Longrightarrow>
     clock_reads w \<le> clock_reads w1 \<and> downloads w1 = downloads w"
  using parse_news_date_world [of w E s] by simp

lemma yahoo_item_world:
  "clock_reads w \<le> clock_reads (snd (yahoo_item E tk item w)) \<and>
   downloads (snd (yahoo_item E tk item w)) \<le> Suc (downloads w)"
  by (auto simp: yahoo_item_def Let_def split: option.splits prod.splits
      dest!: parse_article_worldD parse_news_date_worldD)

lemma marketwatch_item_world:
  "clock_reads w \<le> clock_reads (snd (marketwatch_item E tk item w)) \<and>
   downloads (snd (marketwatch_item E tk item w)) \<le> Suc (downloads w)"
  by (auto simp: marketwatch_item_def Let_def split: option.splits prod.splits
      dest!: parse_article_worldD parse_news_date_worldD)

lemma too_old_world:
  "clock_reads w \<le> clock_reads (snd (too_old E dt d w)) \<and>
   downloads (snd (too_old E dt d w)) = downloads w"
  by (simp add: too_old_def now_def split: option.splits)

lemma google_item_world:
  "clock_reads w \<le> clock_reads (snd (google_item E tk d item w)) \<and>
   downloads (snd (google_item E tk d item w)) \<le> Suc (downloads w)"
proof (cases "\<exists>ttl link pub. rss_title item = Some ttl \<and> rss_link item = Some link \<and> pubDate item = Some pub")
  case False
  then show ?thesis
    by (auto simp: google_item_def split: option.splits)
next
  case True
  then obtain ttl link pub where i: "rss_title item = Some ttl" "rss_link item = Some link"
      "pubDate item = Some pub"
    by blast
  obtain ad w1 where p: "parse_news_date E pub w = (ad, w1)"
    by (cases "parse_news_date E pub w")
  obtain old w2 where t: "too_old E ad d w1 = (old, w2)"
    by (cases "too_old E ad d w1")
  obtain c w3 where a: "parse_article E link w2 = (c, w3)"
    by (cases "parse_article E link w2")
  have "clock_reads w \<le> clock_reads w1" "downloads w1 = downloads w"
    using parse_news_date_world [of w E pub] p by simp_all
  moreover have "clock_reads w1 \<le> clock_reads w2" "downloads w2 = downloads w1"
    using too_old_world [of w1 E ad d] t by simp_all
  moreover have "clock_reads w3 = clock_reads w2" "downloads w3 = Suc (downloads w2)"
    using parse_article_world [of E link w2] a by simp_all
  ultimately show ?thesis
    using i p t a by (cases old) (simp_all add: google_item_def)
qed



lemma example_google_news:
  "get_google_news example_env ''AAPL'' 7 world0 =
    ([\<lparr>news_ticker = ''AAPL'', title = ''Apple earnings preview'',
        url = ''https://example.com/apple-preview'',
        news_date = Some (738912 * DAY + 23 * HOUR), summary = ''Apple reports.'',
        full_text = ''Apple reports on Thursday.'',
        news_source = ''Google News''\<rparr>],
     \<lparr>clock_reads = 3, requests = 1, downloads = 1\<rparr>)"
  by code_simp



lemma adapter_bounds:
  "length (fst (get_yahoo_news E tk d w)) \<le> 5 \<and>
   downloads (snd (get_yahoo_news E tk d w)) \<le> downloads w + 5 \<and>
   length (fst (get_marketwatch_news E tk d w)) \<le> 5 \<and>
   downloads (snd (get_marketwatch_news E tk d w)) \<le> downloads w + 5 \<and>
   length (fst (get_google_news E tk d w)) \<le> 3 \<and>
   downloads (snd (get_google_news E tk d w)) \<le> downloads w + 3"
proof -
  have y: "length (fst (news_loop (yahoo_item E tk) (take 5 items) [] w1)) \<le> 5 \<and>
      downloads (snd (news_loop (yahoo_item E tk) (take 5 items) [] w1)) \<le> downloads w1 + 5"
    for items w1
    using news_loop_length [of "yahoo_item E tk" "take 5 items" "[]" w1]
      news_loop_downloads [of "yahoo_item E tk" "take 5 items" "[]" w1]
    by (simp add: yahoo_item_world)
  have m: "length (fst (news_loop (marketwatch_item E tk) (take 5 items) [] w1)) \<le> 5 \<and>
      downloads (snd (news_loop (marketwatch_item E tk) (take 5 items) [] w1)) \<le> downloads w1 + 5"
    for items w1
    using news_loop_length [of "marketwatch_item E tk" "take 5 items" "[]" w1]
      news_loop_downloads [of "marketwatch_item E tk" "take 5 items" "[]" w1]
    by (simp add: marketwatch_item_world)
  have g: "length (fst (news_loop (google_item E tk d) (take 3 items) [] w1)) \<le> 3 \<and>
      downloads (snd (news_loop (google_item E tk d) (take 3 items) [] w1)) \<le> downloads w1 + 3"
    for items w1
    using news_loop_length [of "google_item E tk d" "take 3 items" "[]" w1]
      news_loop_downloads [of "google_item E tk d" "take 3 items" "[]" w1]
    by (simp add: google_item_world)
  show ?thesis
    using y [of _ "w\<lparr>requests := Suc (requests w)\<rparr>"] m [of _ "w\<lparr>requests := Suc (requests w)\<rparr>"]
      g [of _ "w\<lparr>requests := Suc (requests w)\<rparr>"]
    by (simp add: get_yahoo_news_def get_marketwatch_news_def get_google_news_def session_get_def
        split: sum.splits)
qed

lemma ticker_news_sources:
  "ticker_news_from (news_sources E) tk d acc w =
     (acc @ fst (get_yahoo_news E tk d w)
          @ fst (get_marketwatch_news E tk d (snd (get_yahoo_news E tk d w)))
          @ fst (get_google_news E tk d
                  (snd (get_marketwatch_news E tk d (snd (get_yahoo_news E tk d w))))),
      snd (get_google_news E tk d
            (snd (get_marketwatch_news E tk d (snd (get_yahoo_news E tk d w))))))"
  by (simp add: news_sources_def returned_def)

lemma ticker_news_downloads:
  "downloads (snd (ticker_news_from (news_sources E) tk d acc w)) \<le> downloads w + 13"
  using adapter_bounds [of E tk d w]
    adapter_bounds [of E tk d "snd (get_yahoo_news E tk d w)"]
    adapter_bounds [of E tk d "snd (get_marketwatch_news E tk d (snd (get_yahoo_news E tk d w)))"]
  by (simp add: ticker_news_sources)

lemma collect_news_downloads:
  "downloads (snd (collect_news (news_sources E) tickers d acc w)) \<le>
     downloads w + 13 * length tickers"
proof (induction tickers arbitrary: acc w)
  case Nil
  then show ?case by simp
next
  case (Cons tk tickers)
  obtain a w1 where t: "ticker_news_from (news_sources E) tk d [] w = (a, w1)"
    by (cases "ticker_news_from (news_sources E) tk d [] w")
  then have "downloads w1 \<le> downloads w + 13"
    using ticker_news_downloads [of E tk d "[]" w] by simp
  then show ?case
    using Cons.IH [of "acc @ a" w1] t by simp
qed

text \<open>
  Claim C8. A news adapter returns at most its cap of articles for a ticker (five for
  Yahoo Finance and MarketWatch, three for Google News) and extracts the content of at
  most as many, so for \<open>N\<close> tickers and three adapters the aggregator extracts the
  content of at most \<open>N * 3 * 5\<close> articles.
\<close>

theorem news_work_bounded:
  "length (fst (get_yahoo_news E tk d w)) \<le> 5 \<and>
   downloads (snd (get_yahoo_news E tk d w)) \<le> downloads w + 5 \<and>
   length (fst (get_marketwatch_news E tk d w)) \<le> 5 \<and>
   downloads (snd (get_marketwatch_news E tk d w)) \<le> downloads w + 5 \<and>
   length (fst (get_google_news E tk d w)) \<le> 3 \<and>
   downloads (snd (get_google_news E tk d w)) \<le> downloads w + 3 \<and>
   downloads (snd (get_news_for_tickers E tickers d w)) \<le> downloads w + length tickers * 3 * 5"
proof -
  have "downloads (snd (get_news_for_tickers E tickers d w)) \<le> downloads w + 13 * length tickers"
    using collect_news_downloads [of E tickers d "[]" w]
    by (auto simp: get_news_for_tickers_def get_news_for_tickers_from_def split: prod.splits)
  then have "downloads (snd (get_news_for_tickers E tickers d w)) \<le>
      downloads w + length tickers * 3 * 5"
    by simp
  with adapter_bounds [of E tk d w] show ?thesis by simp
qed


lemma example_yahoo_news:
  "get_yahoo_news example_env ''AAPL'' 7 world0 =
    ([\<lparr>news_ticker = ''AAPL'', title = ''Apple beats estimates'',
        url = ''https://finance.yahoo.com/news/apple-beats.html'',
        news_date = Some 63842724000000000, summary = [], full_text = [],
        news_source = ''Yahoo Finance''\<rparr>],
     \<lparr>clock_reads = 1, requests = 1, downloads = 1\<rparr>)"
  by code_simp

theorem news_work_bounded_witness:
  "length (fst (get_yahoo_news example_env ''AAPL'' 7 world0)) = 1 \<and>
   downloads (snd (get_yahoo_news example_env ''AAPL'' 7 world0)) = 1 \<and>
   length (fst (get_google_news example_env ''AAPL'' 7 world0)) = 1 \<and>
   downloads (snd (get_news_for_tickers example_env [''AAPL'', ''MSFT''] 7 world0)) = 3 \<and>
   downloads (snd (get_news_for_tickers example_env [''AAPL'', ''MSFT''] 7 world0)) \<le>
     downloads world0 + length [''AAPL'', ''MSFT''] * 3 * 5"
  using news_work_bounded [of example_env "''AAPL''" 7 world0 "[''AAPL'', ''MSFT'']"]
  by (simp add: example_yahoo_news example_google_news example_news)

subsection \<open>Articles whose content cannot be extracted\<close>







lemma session_get_newspaper:
  "session_get (E\<lparr>newspaper := f\<rparr>) u w = session_get E u w"
  by (simp add: session_get_def)


























lemma example_news_online:
  "map headline (fst (get_news_for_tickers (example_env\<lparr>newspaper := (\<lambda>k u. Inr online_content)\<rparr>)
      [''AAPL'', ''MSFT''] 7 world0)) =
    [(''AAPL'', ''Apple beats estimates'', ''https://finance.yahoo.com/news/apple-beats.html'',
      Some 63842724000000000, ''Yahoo Finance''),
     (''AAPL'', ''Apple earnings preview'', ''https://example.com/apple-preview'',
      Some 63842079600000000, ''Google News'')]"
  by code_simp


end
